theory Spec2Isabelle
  imports Main
begin

section \<open>nano::optional\_ptr: a heap-allocating, copyable, mutex-guarded optional\<close>

text \<open>
  The class template \<open>nano::optional_ptr<T>\<close> of \<open>nano/lib/optional_ptr.hpp\<close> has two
  members, \<open>std::unique_ptr<T> ptr\<close> and \<open>mutable nano::mutex mutex\<close>. Every member
  function is embedded as a state transformer over an explicit memory:

  \<^item> \<open>objs\<close>: the objects of type \<open>T\<close> in memory, indexed by address; \<open>None\<close> is storage
    whose object has been destroyed (or is not constructed yet). A \<open>T const &\<close> parameter
    is the address of the object it refers to.
  \<^item> \<open>ptr\<close>: the member \<open>ptr\<close> of every \<open>optional_ptr\<close> object; \<open>None\<close> is \<open>nullptr\<close>.
  \<^item> \<open>held\<close>: whether the member \<open>mutex\<close> of an \<open>optional_ptr\<close> object is locked.
  \<^item> \<open>trace\<close>: the memory and lock events of the run so far, in program order.

  Undefined behaviour and aborts are error values, so that every run either returns a
  result with the new memory or says why it does not return.
\<close>

subsection \<open>Memory, events and errors\<close>

type_synonym inst = nat
type_synonym cell = nat

datatype event =
    Lock inst
  | Unlock inst
  | RdPtr inst
  | WrPtr inst
  | RdObj cell
  | Alloc cell
  | Free cell

datatype error =
    Relock inst
  | NullDeref inst
  | BadRef cell
  | AssertFail
  | StaticAssert string

record 'a state =
  objs :: "'a option list"
  ptr :: "inst \<Rightarrow> cell option"
  held :: "inst \<Rightarrow> bool"
  trace :: "event list"

type_synonym ('a, 'r) action = "'a state \<Rightarrow> error + ('r \<times> 'a state)"

definition ret :: "'r \<Rightarrow> ('a, 'r) action" where
  "ret x s = Inr (x, s)"

definition andThen :: "('a, 'r) action \<Rightarrow> ('r \<Rightarrow> ('a, 'q) action) \<Rightarrow> ('a, 'q) action" where
  "andThen m f s = (case m s of Inl e \<Rightarrow> Inl e | Inr (x, s') \<Rightarrow> f x s')"

subsection \<open>The mutex and the assertion macro\<close>

text \<open>
  Modelled from the spec: \<open>nano::mutex\<close> and \<open>nano::lock_guard\<close> come from
  \<open>nano/lib/locks.hpp\<close>, which is not among the sources. The specification calls the
  guard a mutual-exclusion primitive that a public entry point takes exactly once per call
  and whose reentrant locking from the same thread must be avoided; it is a non-recursive
  mutex. \<open>lock\<close> is the constructor of the \<open>lock_guard\<close>: acquiring a mutex that the
  running call already holds does not return (\<open>Relock\<close>). \<open>unlock\<close> is the destructor of
  the \<open>lock_guard\<close> at the end of its scope.
\<close>

definition lock :: "inst \<Rightarrow> ('a, unit) action" where
  "lock m s =
     (if held s m then Inl (Relock m)
      else Inr ((), s\<lparr>held := (held s)(m := True), trace := trace s @ [Lock m]\<rparr>))"

definition unlock :: "inst \<Rightarrow> ('a, unit) action" where
  "unlock m s = Inr ((), s\<lparr>held := (held s)(m := False), trace := trace s @ [Unlock m]\<rparr>)"

text \<open>
  Modelled from the spec: \<open>debug_assert\<close> comes from \<open>nano/lib/utility.hpp\<close>, which is
  not among the sources. The specification describes it as a diagnostic check at
  debug-build granularity that is a no-op in optimized builds. The build kind is the
  parameter \<open>debug\<close>: a debug build evaluates the condition and aborts when it is false, an
  optimized build does not evaluate it.
\<close>

definition debug_assert :: "bool \<Rightarrow> ('a, bool) action \<Rightarrow> ('a, unit) action" where
  "debug_assert debug cond =
     (if debug then andThen cond (\<lambda>b. if b then ret () else (\<lambda>s. Inl AssertFail))
      else ret ())"

subsection \<open>Objects of type T\<close>

text \<open>Reading the object a reference refers to; a reference to a destroyed object is dangling.\<close>

definition load :: "cell \<Rightarrow> ('a, 'a) action" where
  "load c s =
     (if c < length (objs s)
      then (case objs s ! c of
              None \<Rightarrow> Inl (BadRef c)
            | Some v \<Rightarrow> Inr (v, s\<lparr>trace := trace s @ [RdObj c]\<rparr>))
      else Inl (BadRef c))"

text \<open>Writing an object through a reference, as a caller that still owns the original does.\<close>

definition store :: "cell \<Rightarrow> 'a \<Rightarrow> ('a, unit) action" where
  "store c v s =
     (if c < length (objs s) \<and> objs s ! c \<noteq> None
      then Inr ((), s\<lparr>objs := (objs s)[c := Some v]\<rparr>)
      else Inl (BadRef c))"

text \<open>
  \<open>std::make_unique<T> (src)\<close> is \<open>new T (src)\<close>: storage is allocated at an address
  that is not in use, then the copy constructor of \<open>T\<close> reads \<open>src\<close> and constructs the
  copy there.
\<close>

definition allocate :: "('a, cell) action" where
  "allocate s =
     Inr (length (objs s), s\<lparr>objs := objs s @ [None], trace := trace s @ [Alloc (length (objs s))]\<rparr>)"

definition construct_at :: "cell \<Rightarrow> 'a \<Rightarrow> ('a, unit) action" where
  "construct_at c v s = Inr ((), s\<lparr>objs := (objs s)[c := Some v]\<rparr>)"

definition make_unique :: "cell \<Rightarrow> ('a, cell) action" where
  "make_unique src =
     andThen allocate (\<lambda>n.
     andThen (load src) (\<lambda>v.
     andThen (construct_at n v) (\<lambda>_.
     ret n)))"

text \<open>The deleter of \<open>std::unique_ptr\<close>: \<open>if (p) delete p;\<close>.\<close>

definition delete_cell :: "cell option \<Rightarrow> ('a, unit) action" where
  "delete_cell p s =
     (case p of
        None \<Rightarrow> Inr ((), s)
      | Some c \<Rightarrow>
          if c < length (objs s) \<and> objs s ! c \<noteq> None
          then Inr ((), s\<lparr>objs := (objs s)[c := None], trace := trace s @ [Free c]\<rparr>)
          else Inl (BadRef c))"

subsection \<open>The member ptr\<close>

definition read_ptr :: "inst \<Rightarrow> ('a, cell option) action" where
  "read_ptr i s = Inr (ptr s i, s\<lparr>trace := trace s @ [RdPtr i]\<rparr>)"

definition write_ptr :: "inst \<Rightarrow> cell option \<Rightarrow> ('a, unit) action" where
  "write_ptr i p s = Inr ((), s\<lparr>ptr := (ptr s)(i := p), trace := trace s @ [WrPtr i]\<rparr>)"

text \<open>
  \<open>ptr = p\<close> and \<open>ptr.reset (p)\<close>: the member takes the new pointer, then the object it
  owned before is deleted.
\<close>

definition ptr_reset :: "inst \<Rightarrow> cell option \<Rightarrow> ('a, unit) action" where
  "ptr_reset i p =
     andThen (read_ptr i) (\<lambda>old.
     andThen (write_ptr i p) (\<lambda>_.
     delete_cell old))"

text \<open>\<open>ptr.swap (new_ptr)\<close>: returns what the local \<open>new_ptr\<close> holds afterwards.\<close>

definition ptr_swap :: "inst \<Rightarrow> cell option \<Rightarrow> ('a, cell option) action" where
  "ptr_swap i new_ptr =
     andThen (read_ptr i) (\<lambda>old.
     andThen (write_ptr i new_ptr) (\<lambda>_.
     ret old))"

text \<open>\<open>static_cast<bool> (ptr)\<close>.\<close>

definition ptr_bool :: "inst \<Rightarrow> ('a, bool) action" where
  "ptr_bool i = andThen (read_ptr i) (\<lambda>p. ret (p \<noteq> None))"

text \<open>
  \<open>*ptr\<close> and \<open>ptr.operator-> ()\<close>: both require \<open>ptr.get () != nullptr\<close>; on a null
  pointer the behaviour is undefined.
\<close>

definition ptr_deref :: "inst \<Rightarrow> ('a, cell) action" where
  "ptr_deref i =
     andThen (read_ptr i) (\<lambda>p.
       case p of None \<Rightarrow> (\<lambda>s. Inl (NullDeref i)) | Some c \<Rightarrow> ret c)"

subsection \<open>The class optional\_ptr\<close>

text \<open>
  \<open>static_assert (sizeof (T) > alignof (std::max_align_t), "Use [std|boost]::optional")\<close>:
  the instantiation of the template over a type of size \<open>sizeof_T\<close> on a platform whose
  maximum alignment is \<open>max_align\<close>.
\<close>

definition instantiate :: "nat \<Rightarrow> nat \<Rightarrow> error + unit" where
  "instantiate sizeof_T max_align =
     (if sizeof_T > max_align then Inr () else Inl (StaticAssert ''Use [std|boost]::optional''))"

text \<open>
  Before the body of a constructor runs, the members of the new object are default
  initialised: \<open>ptr\<close> is null and \<open>mutex\<close> is unlocked.
\<close>

definition members_init :: "inst \<Rightarrow> ('a, unit) action" where
  "members_init self s =
     Inr ((), s\<lparr>ptr := (ptr s)(self := None), held := (held s)(self := False)\<rparr>)"

text \<open>\<open>explicit operator bool () const\<close> and \<open>bool is_initialized () const\<close>.\<close>

definition operator_bool :: "inst \<Rightarrow> ('a, bool) action" where
  "operator_bool self =
     andThen (lock self) (\<lambda>_.
     andThen (ptr_bool self) (\<lambda>b.
     andThen (unlock self) (\<lambda>_.
     ret b)))"

definition is_initialized :: "inst \<Rightarrow> ('a, bool) action" where
  "is_initialized self =
     andThen (lock self) (\<lambda>_.
     andThen (ptr_bool self) (\<lambda>b.
     andThen (unlock self) (\<lambda>_.
     ret b)))"

text \<open>\<open>explicit optional_ptr ()\<close>.\<close>

definition ctor_empty :: "inst \<Rightarrow> ('a, unit) action" where
  "ctor_empty self =
     andThen (members_init self) (\<lambda>_.
     andThen (lock self) (\<lambda>_.
     andThen (ptr_reset self None) (\<lambda>_.
     unlock self)))"

text \<open>\<open>explicit optional_ptr (T const & value)\<close>.\<close>

definition ctor_value :: "inst \<Rightarrow> cell \<Rightarrow> ('a, unit) action" where
  "ctor_value self val =
     andThen (members_init self) (\<lambda>_.
     andThen (lock self) (\<lambda>_.
     andThen (make_unique val) (\<lambda>n.
     andThen (ptr_reset self (Some n)) (\<lambda>_.
     unlock self))))"

text \<open>
  The condition \<open>other && other.ptr\<close> of the copy constructor and of copy assignment:
  \<open>other\<close> is converted by \<open>operator bool\<close> of the other object, and only when that is
  true the member \<open>other.ptr\<close> is tested.
\<close>

definition other_and_ptr :: "inst \<Rightarrow> ('a, bool) action" where
  "other_and_ptr other =
     andThen (operator_bool other) (\<lambda>b.
       if b then ptr_bool other else ret False)"

text \<open>\<open>explicit optional_ptr (optional_ptr const & other)\<close>.\<close>

definition ctor_copy :: "inst \<Rightarrow> inst \<Rightarrow> ('a, unit) action" where
  "ctor_copy self other =
     andThen (members_init self) (\<lambda>_.
     andThen (lock self) (\<lambda>_.
     andThen (other_and_ptr other) (\<lambda>b.
     andThen (if b
              then andThen (ptr_deref other) (\<lambda>c.
                   andThen (make_unique c) (\<lambda>n. ret (Some n)))
              else ret None) (\<lambda>p.
     andThen (ptr_reset self p) (\<lambda>_.
     unlock self)))))"

text \<open>\<open>optional_ptr & operator= (optional_ptr const & other)\<close>; returns \<open>*this\<close>.\<close>

definition assign_copy :: "inst \<Rightarrow> inst \<Rightarrow> ('a, inst) action" where
  "assign_copy self other =
     andThen (lock self) (\<lambda>_.
     andThen (other_and_ptr other) (\<lambda>b.
     andThen (if b
              then andThen (ptr_deref other) (\<lambda>c.
                   andThen (make_unique c) (\<lambda>n.
                   ptr_reset self (Some n)))
              else ret ()) (\<lambda>_.
     andThen (unlock self) (\<lambda>_.
     ret self))))"

text \<open>
  \<open>optional_ptr & operator= (T const & t_object)\<close>; returns \<open>*this\<close>. The locals are
  destroyed in the reverse order of their declaration: first the \<open>lock_guard\<close>, then
  \<open>new_ptr\<close>, which by then holds the pointer that was swapped out.
\<close>

definition assign_value :: "inst \<Rightarrow> cell \<Rightarrow> ('a, inst) action" where
  "assign_value self t_object =
     andThen (make_unique t_object) (\<lambda>n.
     andThen (lock self) (\<lambda>_.
     andThen (ptr_swap self (Some n)) (\<lambda>new_ptr.
     andThen (unlock self) (\<lambda>_.
     andThen (delete_cell new_ptr) (\<lambda>_.
     ret self)))))"

text \<open>\<open>~optional_ptr ()\<close>.\<close>

definition dtor :: "inst \<Rightarrow> ('a, unit) action" where
  "dtor self =
     andThen (lock self) (\<lambda>_.
     andThen (ptr_reset self None) (\<lambda>_.
     unlock self))"

text \<open>
  \<open>T & operator* ()\<close> and its \<open>const\<close> overload have the same body; the reference they
  return is the address of the owned object.
\<close>

definition operator_deref :: "inst \<Rightarrow> ('a, cell) action" where
  "operator_deref self =
     andThen (lock self) (\<lambda>_.
     andThen (ptr_deref self) (\<lambda>c.
     andThen (unlock self) (\<lambda>_.
     ret c)))"

text \<open>\<open>T * const operator-> ()\<close> and its \<open>const\<close> overload.\<close>

definition operator_arrow :: "inst \<Rightarrow> ('a, cell) action" where
  "operator_arrow self =
     andThen (lock self) (\<lambda>_.
     andThen (ptr_deref self) (\<lambda>c.
     andThen (unlock self) (\<lambda>_.
     ret c)))"

text \<open>
  \<open>T * const get ()\<close> and its \<open>const\<close> overload: the assertion calls \<open>is_initialized\<close>
  of the same object inside the scope of the \<open>lock_guard\<close>.
\<close>

definition get :: "bool \<Rightarrow> inst \<Rightarrow> ('a, cell option) action" where
  "get debug self =
     andThen (lock self) (\<lambda>_.
     andThen (debug_assert debug (is_initialized self)) (\<lambda>_.
     andThen (read_ptr self) (\<lambda>p.
     andThen (unlock self) (\<lambda>_.
     ret p))))"

subsection \<open>Observations used to state the properties\<close>

text \<open>The value an \<open>optional_ptr\<close> object holds: \<open>None\<close> when it is empty.\<close>

definition value_of :: "'a state \<Rightarrow> inst \<Rightarrow> 'a option" where
  "value_of s i =
     (case ptr s i of
        None \<Rightarrow> None
      | Some c \<Rightarrow> if c < length (objs s) then objs s ! c else None)"

text \<open>An address holds a constructed object.\<close>

definition live :: "'a state \<Rightarrow> cell \<Rightarrow> bool" where
  "live s c = (c < length (objs s) \<and> objs s ! c \<noteq> None)"

text \<open>The member \<open>ptr\<close> of an object is null or owns a constructed object.\<close>

definition owns_live :: "'a state \<Rightarrow> inst \<Rightarrow> bool" where
  "owns_live s i = (case ptr s i of None \<Rightarrow> True | Some c \<Rightarrow> live s c)"

text \<open>\<open>n\<close> presence queries in a row on one object, with their answers in order.\<close>

fun queries :: "nat \<Rightarrow> inst \<Rightarrow> ('a, bool list) action" where
  "queries 0 self = ret []"
| "queries (Suc n) self =
     andThen (is_initialized self) (\<lambda>b.
     andThen (queries n self) (\<lambda>bs.
     ret (b # bs)))"

text \<open>
  Replaying a trace: every read or write of the member \<open>ptr\<close> of an object happens
  between a \<open>Lock\<close> and the matching \<open>Unlock\<close> of the mutex of that object.
\<close>

fun guarded_from :: "inst list \<Rightarrow> event list \<Rightarrow> bool" where
  "guarded_from hs [] = True"
| "guarded_from hs (Lock m # es) = guarded_from (m # hs) es"
| "guarded_from hs (Unlock m # es) = guarded_from (removeAll m hs) es"
| "guarded_from hs (RdPtr i # es) = (i \<in> set hs \<and> guarded_from hs es)"
| "guarded_from hs (WrPtr i # es) = (i \<in> set hs \<and> guarded_from hs es)"
| "guarded_from hs (RdObj c # es) = guarded_from hs es"
| "guarded_from hs (Alloc c # es) = guarded_from hs es"
| "guarded_from hs (Free c # es) = guarded_from hs es"

definition guarded :: "event list \<Rightarrow> bool" where
  "guarded es = guarded_from [] es"

text \<open>A memory with one object of type \<open>T\<close> (a caller's value) and no lock held.\<close>

definition mem0 :: "nat state" where
  "mem0 = \<lparr>objs = [Some 7], ptr = (\<lambda>_. None), held = (\<lambda>_. False), trace = []\<rparr>"

text \<open>
  A memory in which the object \<open>1\<close> is present and owns the object at address \<open>1\<close>, and
  the object \<open>0\<close> is empty.
\<close>

definition mem1 :: "nat state" where
  "mem1 = \<lparr>objs = [Some 7, Some 9], ptr = (\<lambda>_. None)(1 := Some 1),
           held = (\<lambda>_. False), trace = []\<rparr>"

text \<open>
  A memory in which the objects \<open>0\<close> and \<open>1\<close> are both present, each owning the object
  at the address of its own number.
\<close>

definition mem2 :: "nat state" where
  "mem2 = \<lparr>objs = [Some 7, Some 9], ptr = (\<lambda>_. None)(0 := Some 0, 1 := Some 1),
           held = (\<lambda>_. False), trace = []\<rparr>"


section \<open>Properties\<close>

subsection \<open>Running the member functions\<close>

lemmas prim_defs =
  ret_def andThen_def lock_def unlock_def load_def store_def allocate_def
  construct_at_def make_unique_def delete_cell_def read_ptr_def write_ptr_def
  ptr_reset_def ptr_swap_def ptr_bool_def ptr_deref_def members_init_def

lemmas op_defs =
  assign_copy_def other_and_ptr_def operator_bool_def is_initialized_def ctor_copy_def
  ctor_value_def ctor_empty_def assign_value_def operator_deref_def

lemma is_initialized_eval:
  "\<not> held s i \<Longrightarrow>
   is_initialized i s =
     Inr (ptr s i \<noteq> None, s\<lparr>held := (held s)(i := False),
                               trace := trace s @ [Lock i, RdPtr i, Unlock i]\<rparr>)"
  by (simp add: is_initialized_def prim_defs)

lemma operator_bool_eval:
  "\<not> held s i \<Longrightarrow>
   operator_bool i s =
     Inr (ptr s i \<noteq> None, s\<lparr>held := (held s)(i := False),
                               trace := trace s @ [Lock i, RdPtr i, Unlock i]\<rparr>)"
  by (simp add: operator_bool_def prim_defs)

lemma ctor_empty_eval:
  "ctor_empty self s =
     Inr ((), s\<lparr>ptr := (ptr s)(self := None), held := (held s)(self := False),
                  trace := trace s @ [Lock self, RdPtr self, WrPtr self, Unlock self]\<rparr>)"
  by (simp add: ctor_empty_def prim_defs)

lemma queries_empty:
  "\<not> held s i \<Longrightarrow> ptr s i = None \<Longrightarrow> \<exists>s'. queries n i s = Inr (replicate n False, s')"
proof (induction n arbitrary: s)
  case 0
  then show ?case by (simp add: ret_def)
next
  case (Suc n)
  let ?s1 = "s\<lparr>held := (held s)(i := False), trace := trace s @ [Lock i, RdPtr i, Unlock i]\<rparr>"
  from Suc.prems have q: "is_initialized i s = Inr (False, ?s1)"
    by (simp add: is_initialized_eval)
  have "\<not> held ?s1 i" "ptr ?s1 i = None" using Suc.prems by simp_all
  from Suc.IH[OF this] obtain s' where "queries n i ?s1 = Inr (replicate n False, s')" by blast
  with q show ?case by (simp add: andThen_def ret_def)
qed

lemma assign_copy_present_eval:
  assumes "self \<noteq> other" "\<not> held s self" "\<not> held s other" "owns_live s self"
    "ptr s other = Some c" "c < length (objs s)" "objs s ! c = Some v"
  shows "assign_copy self other s = Inr (self,
      s\<lparr>objs := (case ptr s self of None \<Rightarrow> objs s @ [Some v]
                  | Some d \<Rightarrow> (objs s @ [Some v])[d := None]),
         ptr := (ptr s)(self := Some (length (objs s))),
         trace := trace s @ [Lock self, Lock other, RdPtr other, Unlock other, RdPtr other,
                    RdPtr other, Alloc (length (objs s)), RdObj c, RdPtr self, WrPtr self]
                  @ (case ptr s self of None \<Rightarrow> [] | Some d \<Rightarrow> [Free d]) @ [Unlock self]\<rparr>)"
  using assms
  by (auto simp add: op_defs prim_defs nth_append owns_live_def live_def fun_upd_idem
      fun_upd_twist split: option.splits)


subsection \<open>Copy assignment from an empty source\<close>

text \<open>
  Between two different objects with free mutexes, copy assignment from an empty source
  returns the destination and leaves the memory as it was: the member \<open>ptr\<close> of every
  object, every object of type \<open>T\<close> and every mutex are the same after the call as
  before, whether the destination was empty or present. Only the event log grows, by the
  two lock scopes and the one read of the source.
\<close>

lemma assign_copy_from_empty_distinct:
  assumes "self \<noteq> other" and "\<not> held s self" and "\<not> held s other"
    and "ptr s other = None"
  shows "assign_copy self other s =
     Inr (self, s\<lparr>trace := trace s
            @ [Lock self, Lock other, RdPtr other, Unlock other, Unlock self]\<rparr>)"
  using assms
  by (simp add: assign_copy_def other_and_ptr_def operator_bool_def prim_defs fun_upd_idem)

text \<open>
  C1. Copy assignment from an empty source is meant to leave every destination, empty or
  present, as it was. When the empty source is the destination itself the call does not
  return: \<open>operator=\<close> locks the mutex of the object and then converts \<open>other\<close>, the
  same object, to \<open>bool\<close>, which locks the same mutex again. In \<open>mem0\<close> the object \<open>0\<close>
  is empty and its mutex is free; assigning it to itself ends in the second lock, while
  assigning the empty object \<open>1\<close> to it returns with nothing but the event log changed.
\<close>

theorem assign_copy_empty_self_relocks:
  "ptr mem0 0 = None \<and> \<not> held mem0 0
   \<and> assign_copy 0 0 mem0 = Inl (Relock 0)
   \<and> assign_copy 0 1 mem0 =
       Inr (0, mem0\<lparr>trace := [Lock 0, Lock 1, RdPtr 1, Unlock 1, Unlock 0]\<rparr>)"
  using assign_copy_from_empty_distinct [of 0 1 mem0]
  by (simp add: assign_copy_def other_and_ptr_def operator_bool_def prim_defs mem0_def)

subsection \<open>Locking\<close>

text \<open>
  C2. Every public operation is meant to take the lock of its object exactly once per
  call and never to acquire a lock it already holds. In a debug build \<open>get\<close> does not:
  it locks the mutex and then, inside that scope, the assertion calls \<open>is_initialized\<close>
  of the same object, which locks the same mutex again. On the present object \<open>1\<close> of
  \<open>mem1\<close> the debug build does not return, while the optimized build, which skips the
  assertion, returns the pointer after one lock scope.
\<close>

theorem get_debug_relocks:
  "get True 1 mem1 = Inl (Relock 1)
   \<and> get False 1 mem1 =
       Inr (Some 1, mem1\<lparr>trace := [Lock 1, RdPtr 1, Unlock 1]\<rparr>)"
  by (simp add: get_def debug_assert_def is_initialized_def prim_defs mem1_def fun_upd_idem)

text \<open>
  C3. Every read or write of the member \<open>ptr\<close> of an object is meant to happen while the
  mutex of that object is held. The copy constructor reads \<open>other.ptr\<close> three times: once
  inside \<open>operator bool\<close> of the other object, under its lock, and twice more, for
  \<open>other.ptr\<close> and \<open>*other.ptr\<close>, after that lock has been released and with only the
  lock of the new object held; copy assignment evaluates the same expression. Copying
  the present object \<open>1\<close> of \<open>mem1\<close> into the object \<open>0\<close>, by construction or by
  assignment, gives a trace that is not guarded: it is guarded up to the release of the
  lock of the object \<open>1\<close> and not from the next read on.
\<close>

theorem ctor_copy_reads_other_unguarded:
  "(\<exists>s'. ctor_copy 0 1 mem1 = Inr ((), s')
     \<and> trace s' = [Lock 0, Lock 1, RdPtr 1, Unlock 1, RdPtr 1, RdPtr 1, Alloc 2, RdObj 1,
                    RdPtr 0, WrPtr 0, Unlock 0]
     \<and> \<not> guarded (trace s'))
   \<and> (\<exists>s'. assign_copy 0 1 mem1 = Inr (0, s')
     \<and> trace s' = [Lock 0, Lock 1, RdPtr 1, Unlock 1, RdPtr 1, RdPtr 1, Alloc 2, RdObj 1,
                    RdPtr 0, WrPtr 0, Unlock 0]
     \<and> \<not> guarded (trace s'))
   \<and> guarded [Lock 0, Lock 1, RdPtr 1, Unlock 1]
   \<and> \<not> guarded [Lock 0, Lock 1, RdPtr 1, Unlock 1, RdPtr 1]"
  by (simp add: ctor_copy_def assign_copy_def other_and_ptr_def operator_bool_def prim_defs
      mem1_def guarded_def numeral_2_eq_2)

subsection \<open>Assignment from a value\<close>



subsection \<open>Construction from a value\<close>

text \<open>
  C5. For every value \<open>v\<close> (the object the reference \<open>val\<close> refers to), the object
  constructed from \<open>v\<close> is present, dereferencing it reads \<open>v\<close>, and it holds a copy of
  its own: after the caller overwrites the original with any \<open>w\<close>, dereferencing the
  object still reads \<open>v\<close>.
\<close>

theorem ctor_value_present_independent:
  assumes "val < length (objs s)" and "objs s ! val = Some v"
  shows "(\<exists>s'. andThen (ctor_value self val) (\<lambda>_. is_initialized self) s = Inr (True, s'))
     \<and> (\<exists>s'. andThen (ctor_value self val) (\<lambda>_.
                andThen (operator_deref self) load) s = Inr (v, s'))
     \<and> (\<exists>s'. andThen (ctor_value self val) (\<lambda>_.
                andThen (store val w) (\<lambda>_.
                andThen (operator_deref self) load)) s = Inr (v, s'))"
  using assms
  by (simp add: op_defs prim_defs nth_append)

theorem ctor_value_present_independent_witness:
  "(\<exists>s'. andThen (ctor_value 1 0) (\<lambda>_. is_initialized 1) mem0 = Inr (True, s'))
     \<and> (\<exists>s'. andThen (ctor_value 1 0) (\<lambda>_.
                andThen (operator_deref 1) load) mem0 = Inr (7, s'))
     \<and> (\<exists>s'. andThen (ctor_value 1 0) (\<lambda>_.
                andThen (store 0 8) (\<lambda>_.
                andThen (operator_deref 1) load)) mem0 = Inr (7, s'))"
  using ctor_value_present_independent [of 0 mem0 7 1 8]
  by (simp add: mem0_def)

subsection \<open>Copy construction\<close>



subsection \<open>Copy assignment from a present source\<close>

text \<open>
  Between two different objects with free mutexes, copy assignment from a present source
  with value \<open>v\<close>, whatever the destination held before (nothing, or an object of its
  own): the call returns the destination, which is then present with value \<open>v\<close>; its
  cell is at an address that was not in use before the call and is not the cell of the
  source, and the source still owns its own cell.
\<close>

lemma assign_copy_from_present_distinct:
  assumes "self \<noteq> other" and "\<not> held s self" and "\<not> held s other"
    and "owns_live s self"
    and "ptr s other = Some c" and "c < length (objs s)" and "objs s ! c = Some v"
  shows "\<exists>s' n. assign_copy self other s = Inr (self, s')
     \<and> ptr s' self = Some n \<and> \<not> n < length (objs s) \<and> n \<noteq> c
     \<and> ptr s' other = Some c
     \<and> value_of s' self = Some v
     \<and> (\<exists>s''. andThen (operator_deref self) load s' = Inr (v, s''))"
proof -
  let ?n = "length (objs s)"
  from assign_copy_present_eval[OF assms] obtain s' where
    r: "assign_copy self other s = Inr (self, s')" and
    p: "ptr s' = (ptr s)(self := Some ?n)" and
    o: "objs s' = (case ptr s self of None \<Rightarrow> objs s @ [Some v]
                  | Some d \<Rightarrow> (objs s @ [Some v])[d := None])" and
    h: "held s' = held s"
    by simp
  from assms(4) have lt: "\<And>d. ptr s self = Some d \<Longrightarrow> d < ?n"
    by (simp add: owns_live_def live_def)
  from o lt have len: "length (objs s') = Suc ?n" and nth: "objs s' ! ?n = Some v"
    by (auto split: option.splits)
  have v: "value_of s' self = Some v"
    using p len nth by (simp add: value_of_def)
  have d: "\<exists>s''. andThen (operator_deref self) load s' = Inr (v, s'')"
    using p len nth h assms(2) by (simp add: operator_deref_def prim_defs)
  from r p v d assms(1,5,6) show ?thesis by auto
qed

text \<open>
  C7. Copy assignment from a present source is meant to leave every destination present
  with a copy of the value of the source. When the present source is the destination
  itself the call does not return and nothing is copied: \<open>operator=\<close> locks the mutex of
  the object and then converts \<open>other\<close>, the same object, to \<open>bool\<close>, which locks the
  same mutex again. In \<open>mem2\<close> the object \<open>0\<close> is present with value \<open>7\<close> and its mutex
  is free; assigning it to itself ends in the second lock, while assigning the present
  object \<open>1\<close> to it returns and leaves it present with the value \<open>9\<close> of the object \<open>1\<close>
  in a new cell.
\<close>

theorem assign_copy_present_self_relocks:
  "value_of mem2 0 = Some 7 \<and> value_of mem2 1 = Some 9 \<and> \<not> held mem2 0
   \<and> owns_live mem2 0
   \<and> assign_copy 0 0 mem2 = Inl (Relock 0)
   \<and> (\<exists>s' n. assign_copy 0 1 mem2 = Inr (0, s')
       \<and> ptr s' 0 = Some n \<and> \<not> n < length (objs mem2) \<and> n \<noteq> 1
       \<and> ptr s' 1 = Some 1
       \<and> value_of s' 0 = Some 9
       \<and> (\<exists>s''. andThen (operator_deref 0) load s' = Inr (9, s'')))"
proof -
  have a: "value_of mem2 0 = Some 7 \<and> value_of mem2 1 = Some 9 \<and> \<not> held mem2 0
      \<and> owns_live mem2 0"
    by (simp add: mem2_def value_of_def owns_live_def live_def)
  have b: "assign_copy 0 0 mem2 = Inl (Relock 0)"
    by (simp add: assign_copy_def other_and_ptr_def operator_bool_def prim_defs mem2_def)
  have c: "\<exists>s' n. assign_copy 0 1 mem2 = Inr (0, s')
       \<and> ptr s' 0 = Some n \<and> \<not> n < length (objs mem2) \<and> n \<noteq> 1
       \<and> ptr s' 1 = Some 1
       \<and> value_of s' 0 = Some 9
       \<and> (\<exists>s''. andThen (operator_deref 0) load s' = Inr (9, s''))"
    using assign_copy_from_present_distinct [of 0 1 mem2 1 9]
    by (simp add: mem2_def owns_live_def live_def)
  from a b c show ?thesis by blast
qed

subsection \<open>Construction of an empty object\<close>

text \<open>
  C8. The default constructor produces an object that is not present: any number \<open>n\<close>
  of presence queries in a row on the new object, with no other operation in between,
  all answer false, through \<open>is_initialized\<close> and through the conversion to \<open>bool\<close>.
\<close>

theorem ctor_empty_never_present:
  "(\<exists>s'. andThen (ctor_empty self) (\<lambda>_. queries n self) s = Inr (replicate n False, s'))
   \<and> (\<exists>s'. andThen (ctor_empty self) (\<lambda>_. operator_bool self) s = Inr (False, s'))"
proof
  let ?s1 = "s\<lparr>ptr := (ptr s)(self := None), held := (held s)(self := False),
      trace := trace s @ [Lock self, RdPtr self, WrPtr self, Unlock self]\<rparr>"
  have "\<not> held ?s1 self" "ptr ?s1 self = None" by simp_all
  from queries_empty[OF this, of n]
  show "\<exists>s'. andThen (ctor_empty self) (\<lambda>_. queries n self) s = Inr (replicate n False, s')"
    by (simp add: andThen_def ctor_empty_eval)
  show "\<exists>s'. andThen (ctor_empty self) (\<lambda>_. operator_bool self) s = Inr (False, s')"
    by (simp add: andThen_def ctor_empty_eval operator_bool_eval)
qed

subsection \<open>The size requirement on T\<close>

text \<open>
  C9. The instantiation of the template over a type \<open>T\<close> is rejected by the static
  assertion exactly when the size of \<open>T\<close> does not exceed the maximum alignment of the
  platform, and accepted exactly when the size is larger.
\<close>

theorem instantiate_rejected_iff:
  "((\<exists>e. instantiate sizeof_T max_align = Inl e) \<longleftrightarrow> sizeof_T \<le> max_align)
   \<and> (instantiate sizeof_T max_align = Inr () \<longleftrightarrow> max_align < sizeof_T)"
  by (simp add: instantiate_def)

subsection \<open>Assignment of an object to itself\<close>

text \<open>
  C10. Copy assignment of an object to itself is meant to keep its value. It does not
  return: \<open>operator=\<close> locks the mutex of the object and then converts \<open>other\<close>, the same
  object, to \<open>bool\<close>, which locks the same mutex again. This happens for the present
  object \<open>1\<close> and for the empty object \<open>0\<close> of \<open>mem1\<close>.
\<close>

theorem assign_copy_self_relocks:
  "assign_copy 1 1 mem1 = Inl (Relock 1) \<and> assign_copy 0 0 mem1 = Inl (Relock 0)
   \<and> value_of mem1 1 = Some 9 \<and> value_of mem1 0 = None"
  by (simp add: assign_copy_def other_and_ptr_def operator_bool_def prim_defs mem1_def
      value_of_def)

end
